theory Spec2Isabelle
  imports Main "HOL-Library.Word" "HOL-Library.AList" "HOL-Library.Sublist"
begin

unbundle bit_operations_syntax

section \<open>Values of the Go program\<close>

text \<open>
  The handler of \<^verbatim>\<open>auth/handler.go\<close> works on three kinds of dynamically typed values:
  the values a hook script returns (\<^verbatim>\<open>otto.Value\<close>), the \<^verbatim>\<open>interface{}\<close> values held in a
  \<^verbatim>\<open>map[string]interface{}\<close> request body, and the \<^verbatim>\<open>interface{}\<close> values kept in
  the expiry cache. Go's \<^verbatim>\<open>int64\<close> is a 64-bit word read in two's complement, \<^verbatim>\<open>uint32\<close> a
  32-bit word.
\<close>

type_synonym int64 = "64 word"
type_synonym uint32 = "32 word"

text \<open>
  A script value. An object carries its data properties and the names of the properties
  whose getter throws (for these \<^verbatim>\<open>Object.Get\<close> returns an error).
\<close>

datatype jsval =
    JUndefined
  | JNull
  | JBool bool
  | JNumber int
  | JNaN
  | JString string
  | JArray "jsval list"
  | JObject "(string \<times> jsval) list" "string list"
  | JFunction

text \<open>
  An \<^verbatim>\<open>interface{}\<close> value of a request body. \<open>GOtto\<close> is a script value that
  \<^verbatim>\<open>Export\<close> hands back unconverted. A Go map is kept as an association list with
  \<^const>\<open>map_of\<close> for lookup and \<^const>\<open>AList.update\<close> for assignment.
\<close>

datatype gval =
    GNil
  | GBool bool
  | GNum int
  | GNaN
  | GStr string
  | GList "gval list"
  | GObj "(string \<times> gval) list"
  | GOtto jsval

type_synonym gomap = "(string \<times> gval) list"

text \<open>
  A value stored in the expiry cache, with its dynamic type: the untyped constant \<^verbatim>\<open>0\<close>
  passed as \<^verbatim>\<open>interface{}\<close> is an \<^verbatim>\<open>int\<close>, \<^verbatim>\<open>stdClaims.ExpiresAt\<close> is an \<^verbatim>\<open>int64\<close>.
\<close>

datatype cached = IntVal int64 | Int64Val int64

section \<open>Errors, results and observable effects\<close>

datatype error =
    NoTokenError
  | InvalidCredentialsError
  | AuthenticationIncompleteError gomap
  | InvalidResponseBodyContentTypeError string
  | ValidationError uint32
  | UnexpectedStatusError int string string
  | HookNotFunctionError
  | HookCallError error
  | HookNotObjectError string
  | EOF
  | OtherError string

text \<open>A call either returns its result values or panics.\<close>

datatype 'a outcome = Return 'a | Panic string

record JWTResponse =
  JWT :: string
  AllowedApplications :: "string list"

record StandardClaims =
  ExpiresAt :: int64

record http_request =
  Method :: string
  URL :: string
  Accept :: string
  ContentType :: string
  Payload :: gomap

record http_response =
  StatusCode :: int
  RespContentType :: string
  Body :: string

datatype level = Debug | Info | Warning | Error

datatype logarg =
    LStr string
  | LStrs "string list"
  | LMap gomap
  | LJson "gomap option"
  | LJs jsval
  | LErr error

text \<open>
  What a call does besides returning: the log lines it writes (format string and
  arguments) and the calls it makes to its collaborators: the hook function with its
  arguments, the request sent to the provider, the token handed to the verifier.
\<close>

datatype event =
    Log level string "logarg list"
  | CallHook string string "gomap option"
  | HttpDo http_request
  | VerifyToken string

section \<open>The expiry cache\<close>

text \<open>
  \<^verbatim>\<open>go-cache\<close> keeps for every key an item: the object and the expiration in Unix
  nanoseconds, 0 for an item that never expires. \<^verbatim>\<open>Get\<close> hides an item whose expiration
  has passed; \<^verbatim>\<open>Set\<close> with a duration that is not positive stores a never-expiring item
  (the handler's cache is built with \<^verbatim>\<open>cache.NoExpiration\<close> as its default). The
  periodic sweep deletes only items that \<^verbatim>\<open>Get\<close> hides already, so it is left out.
\<close>

record item =
  Object :: cached
  Expiration :: int64

type_synonym cache = "string \<rightharpoonup> item"

definition NoExpiration :: int64 where
  "NoExpiration = - 1"

definition DefaultExpiration :: int64 where
  "DefaultExpiration = 0"

definition Second :: int64 where
  "Second = 1000000000"

definition cache_Get :: "cache \<Rightarrow> int64 \<Rightarrow> string \<Rightarrow> cached option" where
  "cache_Get c nowNano k =
     (case c k of
        None \<Rightarrow> None
      | Some it \<Rightarrow>
          if 0 <s Expiration it \<and> Expiration it <s nowNano then None
          else Some (Object it))"

definition cache_Set :: "cache \<Rightarrow> int64 \<Rightarrow> string \<Rightarrow> cached \<Rightarrow> int64 \<Rightarrow> cache" where
  "cache_Set c nowNano k x d =
     (let d' = (if d = DefaultExpiration then NoExpiration else d);
          e = (if 0 <s d' then nowNano + d' else 0)
      in c(k \<mapsto> \<lparr>Object = x, Expiration = e\<rparr>))"

text \<open>\<^verbatim>\<open>time.Now().Unix()\<close>: the seconds of a reading in nanoseconds.\<close>

definition Unix :: "int64 \<Rightarrow> int64" where
  "Unix nowNano = word_of_int (sint nowNano div 1000000000)"

section \<open>The handler and its mutable state\<close>

text \<open>
  \<open>Parameters\<close> is a Go map, that is a reference: \<open>None\<close> is the nil map, \<open>Some a\<close>
  the map stored at address \<open>a\<close>. The maps themselves live in the state, next to the
  cache. The token reader, the verifier and the HTTP client are fields of the handler.
  The URL parser behind \<^verbatim>\<open>http.NewRequest\<close> and the JSON parser behind \<^verbatim>\<open>json.Decoder\<close>
  belong to Go's standard library and are taken as parameters.
\<close>

record ProviderConfig =
  Url :: string
  Parameters :: "nat option"

text \<open>
  The compiled hook script: the error of running it, if any, and the value of
  \<^verbatim>\<open>exports\<close> after the run, \<open>None\<close> when that is not a function. The function gives
  the lines the script writes through its \<^verbatim>\<open>log\<close> capability and its result.
\<close>

record script =
  RunError :: "error option"
  Exports :: "(string \<Rightarrow> string \<Rightarrow> gomap option \<Rightarrow> (string \<times> logarg list) list \<times> (error + jsval)) option"

record 'r AuthenticationHandler =
  config :: ProviderConfig
  tokenReader :: "'r \<Rightarrow> JWTResponse option \<times> error option"
  verifier :: "string \<Rightarrow> bool \<times> StandardClaims option \<times> error option"
  httpClient :: "http_request \<Rightarrow> error + http_response"
  hookPreAuth :: "script option"

record stdlib =
  newRequestError :: "string \<Rightarrow> error option"
  jsonParse :: "string \<Rightarrow> error + gval"

record state =
  maps :: "nat \<Rightarrow> gomap"
  nextRef :: nat
  expCache :: cache

section \<open>IsAuthenticated\<close>

definition ValidationErrorSignatureInvalid :: uint32 where
  "ValidationErrorSignatureInvalid = push_bit 2 1"

definition ValidationErrorExpired :: uint32 where
  "ValidationErrorExpired = push_bit 4 1"

definition acceptableErrors :: uint32 where
  "acceptableErrors = ValidationErrorExpired OR ValidationErrorSignatureInvalid"

type_synonym auth_result = "bool \<times> JWTResponse option \<times> error option"

text \<open>Lines 282 to 293: what the miss branch returns when it has not returned yet.\<close>

definition verifierFailure :: "error option \<Rightarrow> auth_result" where
  "verifierFailure err =
     (case err of
        Some e \<Rightarrow>
          (case e of
             ValidationError t \<Rightarrow>
               if t AND acceptableErrors \<noteq> 0 then (False, None, None)
               else (False, None, Some e)
           | _ \<Rightarrow> (False, None, Some e))
      | None \<Rightarrow> (False, None, None))"

text \<open>
  \<open>nowNano\<close> is the reading of the clock in Unix nanoseconds; every \<^verbatim>\<open>time.Now()\<close> of
  one call reads the same instant. The third result of the verifier is discarded by the
  handler and left out. The type
  assertion \<^verbatim>\<open>exp.(int64)\<close> of line 262 panics on a value of another dynamic type, and
  \<^verbatim>\<open>exp == 0\<close> of line 265 compares with the \<^verbatim>\<open>int\<close> zero.
\<close>

definition IsAuthenticated ::
  "'r AuthenticationHandler \<Rightarrow> state \<Rightarrow> int64 \<Rightarrow> 'r \<Rightarrow> auth_result outcome \<times> state \<times> event list" where
  "IsAuthenticated h s nowNano req =
     (case tokenReader h req of
        (tok, Some err) \<Rightarrow>
          if err = NoTokenError then (Return (False, None, None), s, [])
          else (Return (False, None, Some err), s,
                [Log Warning ''error while reading token from request: %s'' [LErr err]])
      | (None, None) \<Rightarrow> (Panic ''invalid memory address or nil pointer dereference'', s, [])
      | (Some token, None) \<Rightarrow>
          (case cache_Get (expCache s) nowNano (JWT token) of
             Some exp \<Rightarrow>
               (case exp of
                  IntVal v \<Rightarrow>
                    (Panic ''interface conversion: interface {} is int, not int64'', s, [])
                | Int64Val expiry \<Rightarrow>
                    if exp = IntVal 0 \<or> Unix nowNano <s expiry
                    then (Return (True, Some token, None), s, [])
                    else (Return (False, None, None), s, []))
           | None \<Rightarrow>
               (case verifier h (JWT token) of
                  (valid, stdClaims, err) \<Rightarrow>
                    if err = None \<and> valid then
                      (case stdClaims of
                         None \<Rightarrow>
                           (Panic ''invalid memory address or nil pointer dereference'', s,
                            [VerifyToken (JWT token)])
                       | Some claims \<Rightarrow>
                           if ExpiresAt claims = 0 then
                             (Return (True, Some token, None),
                              s\<lparr>expCache :=
                                   cache_Set (expCache s) nowNano (JWT token) (IntVal 0) NoExpiration\<rparr>,
                              [VerifyToken (JWT token)])
                           else if Unix nowNano <s ExpiresAt claims then
                             (Return (True, Some token, None),
                              s\<lparr>expCache :=
                                   cache_Set (expCache s) nowNano (JWT token)
                                     (Int64Val (ExpiresAt claims))
                                     ((ExpiresAt claims - Unix nowNano) * Second)\<rparr>,
                              [VerifyToken (JWT token)])
                           else (Return (verifierFailure err), s, [VerifyToken (JWT token)]))
                    else (Return (verifierFailure err), s, [VerifyToken (JWT token)]))))"

section \<open>The script values the hook returns\<close>

text \<open>
  The operations of \<^verbatim>\<open>otto.Value\<close> that \<^verbatim>\<open>Authenticate\<close> uses. \<^verbatim>\<open>ToBoolean\<close> is
  JavaScript's truthiness; every object, array and function is an object; \<^verbatim>\<open>Class\<close> is
  empty for a value that is not an object.
\<close>

fun ToBoolean :: "jsval \<Rightarrow> bool" where
  "ToBoolean JUndefined = False"
| "ToBoolean JNull = False"
| "ToBoolean (JBool b) = b"
| "ToBoolean (JNumber n) = (n \<noteq> 0)"
| "ToBoolean JNaN = False"
| "ToBoolean (JString s) = (s \<noteq> [])"
| "ToBoolean (JArray xs) = True"
| "ToBoolean (JObject ps ts) = True"
| "ToBoolean JFunction = True"

fun IsObject :: "jsval \<Rightarrow> bool" where
  "IsObject (JArray xs) = True"
| "IsObject (JObject ps ts) = True"
| "IsObject JFunction = True"
| "IsObject v = False"

fun Class :: "jsval \<Rightarrow> string" where
  "Class (JArray xs) = ''Array''"
| "Class (JObject ps ts) = ''Object''"
| "Class JFunction = ''Function''"
| "Class v = []"

fun Object_Get :: "jsval \<Rightarrow> string \<Rightarrow> error + jsval" where
  "Object_Get (JObject ps ts) name =
     (if name \<in> set ts then Inl (OtherError name)
      else case map_of ps name of None \<Rightarrow> Inr JUndefined | Some v \<Rightarrow> Inr v)"
| "Object_Get v name = Inr JUndefined"

text \<open>
  \<^verbatim>\<open>Export\<close> turns a plain object into a \<^verbatim>\<open>map[string]interface{}\<close> of its defined
  properties, an array into a slice, and hands a function back as it is.
\<close>

fun Export :: "jsval \<Rightarrow> gval" where
  "Export JUndefined = GNil"
| "Export JNull = GNil"
| "Export (JBool b) = GBool b"
| "Export (JNumber n) = GNum n"
| "Export JNaN = GNaN"
| "Export (JString s) = GStr s"
| "Export (JArray xs) = GList (map Export xs)"
| "Export (JObject ps ts) =
     GObj (map (\<lambda>p. (fst p, Export (snd p))) (filter (\<lambda>p. snd p \<noteq> JUndefined) ps))"
| "Export JFunction = GOtto JFunction"

text \<open>An array exports to a \<^verbatim>\<open>[]string\<close> when it is not empty and holds strings only.\<close>

fun stringOf :: "jsval \<Rightarrow> string option" where
  "stringOf (JString s) = Some s"
| "stringOf v = None"

fun asStringSlice :: "jsval \<Rightarrow> string list option" where
  "asStringSlice (JArray xs) =
     (if xs \<noteq> [] \<and> list_all (\<lambda>x. stringOf x \<noteq> None) xs
      then Some (map (\<lambda>x. the (stringOf x)) xs) else None)"
| "asStringSlice v = None"

section \<open>JSON\<close>

text \<open>
  \<^verbatim>\<open>json.Marshal\<close> of a request body fails on a NaN anywhere in it; the document it
  writes is kept as the content of the map at that moment.
\<close>

fun marshalable :: "gval \<Rightarrow> bool" where
  "marshalable GNaN = False"
| "marshalable (GList xs) = list_all marshalable xs"
| "marshalable (GObj ps) = list_all (\<lambda>p. marshalable (snd p)) ps"
| "marshalable v = True"

definition json_Marshal :: "gomap \<Rightarrow> error + gomap" where
  "json_Marshal m =
     (if list_all (\<lambda>p. marshalable (snd p)) m then Inr m
      else Inl (OtherError ''json: unsupported value: NaN''))"

text \<open>
  \<^verbatim>\<open>json.NewDecoder(resp.Body).Decode(&unmarshalledBody)\<close> with a map as its target: no
  input is \<^verbatim>\<open>io.EOF\<close>, an object fills the map, \<^verbatim>\<open>null\<close> leaves it nil, any other
  document is a type error.
\<close>

definition json_Decode :: "stdlib \<Rightarrow> string \<Rightarrow> error + gomap" where
  "json_Decode lib body =
     (if body = [] then Inl EOF
      else case jsonParse lib body of
             Inl err \<Rightarrow> Inl err
           | Inr (GObj m) \<Rightarrow> Inr m
           | Inr GNil \<Rightarrow> Inr []
           | Inr v \<Rightarrow> Inl (OtherError ''json: cannot unmarshal into Go value of type map[string]interface {}''))"

section \<open>Authenticate\<close>

text \<open>
  Lines 146 to 158: a body that exports to a map replaces the request body. The map is a
  new one; values that are still script values are exported once more.
\<close>

definition reExport :: "gval \<Rightarrow> gval" where
  "reExport v = (case v of GOtto ottoValue \<Rightarrow> Export ottoValue | _ \<Rightarrow> v)"

definition replaceBody :: "state \<Rightarrow> nat \<Rightarrow> jsval \<Rightarrow> nat \<times> state \<times> event list" where
  "replaceBody s authRequest body =
     (case Export body of
        GObj exported \<Rightarrow>
          let newAuthRequest = map (\<lambda>p. (fst p, reExport (snd p))) exported
          in (nextRef s,
              s\<lparr>maps := (maps s)(nextRef s := newAuthRequest), nextRef := Suc (nextRef s)\<rparr>,
              [Log Debug ''hook mapped authentication request to: %s'' [LMap newAuthRequest]])
      | _ \<Rightarrow> (authRequest, s, []))"

text \<open>Lines 164 to 167.\<close>

definition replaceURL :: "string \<Rightarrow> jsval \<Rightarrow> string \<times> event list" where
  "replaceURL requestURL url =
     (case url of
        JString u \<Rightarrow> (u, [Log Debug ''hook set request URL to: %s'' [LJs url]])
      | _ \<Rightarrow> (requestURL, []))"

text \<open>Lines 173 to 179.\<close>

definition restrictApplications :: "jsval \<Rightarrow> string list \<times> event list" where
  "restrictApplications allowedApps =
     (if allowedApps \<noteq> JUndefined then
        (case asStringSlice allowedApps of
           Some l \<Rightarrow> (l, [Log Debug ''token will be restricted to apps: %s'' [LStrs l]])
         | None \<Rightarrow> ([], []))
      else ([], []))"

text \<open>
  Lines 131 to 179, what the handler does with the hook's result. The outcome is the
  error of an early return, or the address of the request body, the request URL and the
  allowed applications; with it come the state and the events.
\<close>

definition applyHookResult ::
  "state \<Rightarrow> nat \<Rightarrow> string \<Rightarrow> jsval \<Rightarrow> (error + nat \<times> string \<times> string list) \<times> state \<times> event list" where
  "applyHookResult s authRequest requestURL hookResult =
     (if \<not> ToBoolean hookResult then (Inl InvalidCredentialsError, s, [])
      else if \<not> IsObject hookResult then (Inl (HookNotObjectError (Class hookResult)), s, [])
      else
        (case Object_Get hookResult ''body'' of
           Inl err \<Rightarrow> (Inl err, s, [])
         | Inr body \<Rightarrow>
             (case replaceBody s authRequest body of
                (authRequest', s', evs1) \<Rightarrow>
                  (case Object_Get hookResult ''url'' of
                     Inl err \<Rightarrow> (Inl err, s', evs1)
                   | Inr url \<Rightarrow>
                       (case replaceURL requestURL url of
                          (requestURL', evs2) \<Rightarrow>
                            (case Object_Get hookResult ''allowedApplications'' of
                               Inl err \<Rightarrow> (Inl err, s', evs1 @ evs2)
                             | Inr allowedApps \<Rightarrow>
                                 (case restrictApplications allowedApps of
                                    (l, evs3) \<Rightarrow>
                                      (Inr (authRequest', requestURL', l), s',
                                       evs1 @ evs2 @ evs3))))))))"

text \<open>Lines 115 to 130: the script is run and its exported function called.\<close>

definition preAuthHook ::
  "'r AuthenticationHandler \<Rightarrow> state \<Rightarrow> nat \<Rightarrow> string \<Rightarrow> string \<Rightarrow> string \<Rightarrow> gomap option \<Rightarrow>
   (error + nat \<times> string \<times> string list) \<times> state \<times> event list" where
  "preAuthHook h s authRequest requestURL username password additionalBodyProperties =
     (case hookPreAuth h of
        None \<Rightarrow> (Inr (authRequest, requestURL, []), s, [])
      | Some sc \<Rightarrow>
          (case RunError sc of
             Some err \<Rightarrow> (Inl err, s, [])
           | None \<Rightarrow>
               (case Exports sc of
                  None \<Rightarrow> (Inl HookNotFunctionError, s, [])
                | Some export \<Rightarrow>
                    (case export username password additionalBodyProperties of
                       (lines, res) \<Rightarrow>
                         let evs = CallHook username password additionalBodyProperties
                                   # map (\<lambda>l. Log Debug (fst l) (snd l)) lines
                         in
                         (case res of
                            Inl err \<Rightarrow> (Inl (HookCallError err), s, evs)
                          | Inr hookResult \<Rightarrow>
                              (case applyHookResult s authRequest requestURL hookResult of
                                 (r, s', evs') \<Rightarrow> (r, s', evs @ evs')))))))"

text \<open>Lines 212 to 247: the provider's response.\<close>

definition interpretResponse ::
  "stdlib \<Rightarrow> http_response \<Rightarrow> string list \<Rightarrow> string \<Rightarrow> (error + JWTResponse) \<times> event list" where
  "interpretResponse lib resp allowedApplications username =
     (if 400 \<le> StatusCode resp then
        if StatusCode resp = 403 then
          (Inl InvalidCredentialsError,
           [Log Warning ''invalid credentials for user %s: %s'' [LStr username, LStr (Body resp)]])
        else
          (Inl (UnexpectedStatusError (StatusCode resp) username (Body resp)),
           [Log Error ''%s'' [LErr (UnexpectedStatusError (StatusCode resp) username (Body resp))]])
      else if StatusCode resp = 202 then
        (if \<not> prefix ''application/json'' (RespContentType resp)
         then Inl (InvalidResponseBodyContentTypeError (RespContentType resp))
         else case json_Decode lib (Body resp) of
                Inl err \<Rightarrow> Inl err
              | Inr unmarshalledBody \<Rightarrow> Inl (AuthenticationIncompleteError unmarshalledBody),
         [Log Info ''user %s has given correct credentials, but additional authentication factor is required''
            [LStr username]])
      else (Inr \<lparr>JWT = Body resp, AllowedApplications = allowedApplications\<rparr>, []))"

text \<open>
  Lines 187 to 190: \<^verbatim>\<open>redactedAuthRequest := authRequest\<close> copies the reference, not the
  map, so the password is overwritten in the map \<^verbatim>\<open>authRequest\<close> refers to.
\<close>

definition redactPassword :: "state \<Rightarrow> nat \<Rightarrow> state" where
  "redactPassword s authRequest =
     (let redactedAuthRequest = authRequest
      in if map_of (maps s redactedAuthRequest) ''password'' \<noteq> None
         then s\<lparr>maps := (maps s)(redactedAuthRequest :=
                 AList.update ''password'' (GStr ''*REDACTED*'') (maps s redactedAuthRequest))\<rparr>
         else s)"

text \<open>Lines 192 to 195.\<close>

definition requestLog :: "state \<Rightarrow> nat \<Rightarrow> string \<Rightarrow> event list" where
  "requestLog s redactedAuthRequest username =
     (let debugJsonString = (case json_Marshal (maps s redactedAuthRequest) of
                               Inl err \<Rightarrow> None | Inr j \<Rightarrow> Some j)
      in [Log Info ''authenticating user %s'' [LStr username],
          Log Debug ''authentication request: %s'' [LJson debugJsonString]])"

text \<open>Lines 197 to 202.\<close>

definition newRequest :: "string \<Rightarrow> gomap \<Rightarrow> http_request" where
  "newRequest requestURL jsonString =
     \<lparr>Method = ''POST'', URL = requestURL, Accept = ''application/jwt'',
      ContentType = ''application/json'', Payload = jsonString\<rparr>"

text \<open>
  Lines 182 to 210: the body is marshalled before the password is redacted, so the
  provider receives the password; then the request is sent, once.
\<close>

definition delegate ::
  "stdlib \<Rightarrow> 'r AuthenticationHandler \<Rightarrow> state \<Rightarrow> nat \<Rightarrow> string \<Rightarrow> string list \<Rightarrow> string \<Rightarrow>
   (error + JWTResponse) \<times> state \<times> event list" where
  "delegate lib h s authRequest requestURL allowedApplications username =
     (case json_Marshal (maps s authRequest) of
        Inl err \<Rightarrow> (Inl err, s, [])
      | Inr jsonString \<Rightarrow>
          let s' = redactPassword s authRequest;
              evs = requestLog s' authRequest username
          in
          (case newRequestError lib requestURL of
             Some err \<Rightarrow> (Inl err, s', evs)
           | None \<Rightarrow>
               let req = newRequest requestURL jsonString
               in
               (case httpClient h req of
                  Inl err \<Rightarrow> (Inl err, s', evs @ [HttpDo req])
                | Inr resp \<Rightarrow>
                    (case interpretResponse lib resp allowedApplications username of
                       (res, evs') \<Rightarrow> (res, s', evs @ [HttpDo req] @ evs')))))"

text \<open>
  Lines 106 to 113 and the whole: \<^verbatim>\<open>authRequest\<close> is the configured map itself, and the
  two assignments write into it; on a nil map they panic.
\<close>

definition Authenticate ::
  "stdlib \<Rightarrow> 'r AuthenticationHandler \<Rightarrow> state \<Rightarrow> string \<Rightarrow> string \<Rightarrow> gomap option \<Rightarrow>
   (error + JWTResponse) outcome \<times> state \<times> event list" where
  "Authenticate lib h s username password additionalBodyProperties =
     (case Parameters (config h) of
        None \<Rightarrow> (Panic ''assignment to entry in nil map'', s, [])
      | Some authRequest \<Rightarrow>
          let s1 = s\<lparr>maps := (maps s)(authRequest :=
                       AList.update ''password'' (GStr password)
                         (AList.update ''username'' (GStr username) (maps s authRequest)))\<rparr>;
              requestURL = Url (config h) @ ''/authenticate''
          in
          (case preAuthHook h s1 authRequest requestURL username password additionalBodyProperties of
             (Inl err, s2, evs) \<Rightarrow> (Return (Inl err), s2, evs)
           | (Inr (authRequest', requestURL', allowedApplications), s2, evs) \<Rightarrow>
               (case delegate lib h s2 authRequest' requestURL' allowedApplications username of
                  (res, s3, evs') \<Rightarrow> (Return res, s3, evs @ evs'))))"

section \<open>Concrete handlers\<close>

text \<open>
  A handler whose provider gives one answer and whose verifier gives one verdict, a
  state that holds the configured parameters at address 0, and a standard library whose
  parser knows one document.
\<close>

definition someToken :: JWTResponse where
  "someToken = \<lparr>JWT = ''header.claims.signature'', AllowedApplications = []\<rparr>"

definition staffParameters :: gomap where
  "staffParameters = [(''realm'', GStr ''staff'')]"

definition initialState :: state where
  "initialState = \<lparr>maps = (\<lambda>a. if a = 0 then staffParameters else []), nextRef = 1,
                    expCache = Map.empty\<rparr>"

definition smsDocument :: string where
  \<open>smsDocument = ''{"factor":"sms"}''\<close>

definition stdlib0 :: stdlib where
  "stdlib0 =
     \<lparr>newRequestError = (\<lambda>u. None),
      jsonParse = (\<lambda>b. if b = smsDocument then Inr (GObj [(''factor'', GStr ''sms'')])
                        else Inl (OtherError ''invalid character''))\<rparr>"

definition demoHandler ::
  "script option \<Rightarrow> error + http_response \<Rightarrow> bool \<times> StandardClaims option \<times> error option \<Rightarrow>
   unit AuthenticationHandler" where
  "demoHandler hook answer verdict =
     \<lparr>config = \<lparr>Url = ''https://idp.example'', Parameters = Some 0\<rparr>,
      tokenReader = (\<lambda>r. (Some someToken, None)),
      verifier = (\<lambda>t. verdict),
      httpClient = (\<lambda>r. answer),
      hookPreAuth = hook\<rparr>"

definition noAnswer :: "error + http_response" where
  "noAnswer = Inl (OtherError ''connection refused'')"

definition noVerdict :: "bool \<times> StandardClaims option \<times> error option" where
  "noVerdict = (False, None, Some (OtherError ''no verifier''))"

definition rejectingHook :: script where
  "rejectingHook = \<lparr>RunError = None, Exports = Some (\<lambda>u p props. ([], Inr (JBool False)))\<rparr>"

definition mappingHook :: script where
  "mappingHook =
     \<lparr>RunError = None,
      Exports = Some (\<lambda>u p props.
        ([], Inr (JObject [(''body'', JObject [(''user'', JString u), (''password'', JString p)] [])] [])))\<rparr>"

definition answer :: "int \<Rightarrow> string \<Rightarrow> string \<Rightarrow> error + http_response" where
  "answer status contentType body =
     Inr \<lparr>StatusCode = status, RespContentType = contentType, Body = body\<rparr>"

definition aliceRequest :: http_request where
  "aliceRequest =
     newRequest ''https://idp.example/authenticate''
       [(''realm'', GStr ''staff''), (''username'', GStr ''alice''), (''password'', GStr ''hunter2'')]"

lemmas Authenticate_unfold =
  Authenticate_def preAuthHook_def applyHookResult_def replaceBody_def replaceURL_def
  restrictApplications_def reExport_def delegate_def redactPassword_def requestLog_def
  newRequest_def interpretResponse_def json_Marshal_def json_Decode_def Let_def

lemmas demo_unfold =
  demoHandler_def initialState_def staffParameters_def stdlib0_def someToken_def
  smsDocument_def noAnswer_def noVerdict_def rejectingHook_def mappingHook_def answer_def

lemmas IsAuthenticated_unfold =
  IsAuthenticated_def cache_Get_def cache_Set_def verifierFailure_def acceptableErrors_def
  ValidationErrorExpired_def ValidationErrorSignatureInvalid_def NoExpiration_def
  DefaultExpiration_def Second_def Unix_def Let_def

section \<open>Frame and structure of Authenticate\<close>

lemma replaceBody_frame:
  "replaceBody s a body = (a', s', evs) \<Longrightarrow> expCache s' = expCache s \<and> HttpDo req \<notin> set evs"
  by (auto simp: replaceBody_def Let_def split: gval.splits)

lemma replaceURL_frame: "replaceURL url v = (url', evs) \<Longrightarrow> HttpDo req \<notin> set evs"
  by (auto simp: replaceURL_def split: jsval.splits)

lemma restrictApplications_frame: "restrictApplications v = (l, evs) \<Longrightarrow> HttpDo req \<notin> set evs"
  by (auto simp: restrictApplications_def split: option.splits if_splits)

lemma applyHookResult_frame:
  assumes "applyHookResult s a url v = (r, s', evs)"
  shows "expCache s' = expCache s \<and> HttpDo req \<notin> set evs"
  using assms
  by (auto simp: applyHookResult_def split: if_splits sum.splits prod.splits
      dest: replaceBody_frame [where req = req] replaceURL_frame [where req = req]
        restrictApplications_frame [where req = req])

lemma preAuthHook_frame:
  assumes "preAuthHook h s a url u p props = (r, s', evs)"
  shows "expCache s' = expCache s \<and> HttpDo req \<notin> set evs"
  using assms
  by (auto simp: preAuthHook_def Let_def split: option.splits sum.splits prod.splits
      dest: applyHookResult_frame [where req = req])

lemma redactPassword_expCache: "expCache (redactPassword s a) = expCache s"
  by (simp add: redactPassword_def Let_def)

lemma requestLog_no_HttpDo: "HttpDo req \<notin> set (requestLog s a u)"
  by (simp add: requestLog_def Let_def)

lemma interpretResponse_no_HttpDo:
  "interpretResponse lib resp apps u = (r, evs) \<Longrightarrow> HttpDo req \<notin> set evs"
  by (auto simp: interpretResponse_def split: if_splits)

lemma delegate_expCache:
  "delegate lib h s a url apps u = (r, s', evs) \<Longrightarrow> expCache s' = expCache s"
  by (auto simp: delegate_def Let_def redactPassword_expCache
      split: option.splits prod.splits sum.splits)

lemma delegate_HttpDo:
  assumes run: "delegate lib h s a url apps u = (r, s', evs)"
      and sent: "HttpDo req \<in> set evs"
  shows "r = (case httpClient h req of
                Inl err \<Rightarrow> Inl err
              | Inr resp \<Rightarrow> fst (interpretResponse lib resp apps u))"
proof (cases "json_Marshal (maps s a)")
  case (Inl err)
  with run sent show ?thesis by (simp add: delegate_def)
next
  case (Inr jsonString)
  note marshal = Inr
  show ?thesis
  proof (cases "newRequestError lib url")
    case (Some err)
    with run sent marshal show ?thesis
      by (auto simp: delegate_def Let_def requestLog_no_HttpDo)
  next
    case None
    define req0 where "req0 = newRequest url jsonString"
    show ?thesis
    proof (cases "httpClient h req0")
      case (Inl err)
      with run marshal None have "r = Inl err" and "evs = requestLog (redactPassword s a) a u @ [HttpDo req0]"
        by (auto simp: delegate_def Let_def req0_def)
      with sent Inl show ?thesis by (auto simp: requestLog_no_HttpDo)
    next
      case (Inr resp)
      obtain r' evs' where ir: "interpretResponse lib resp apps u = (r', evs')"
        by (cases "interpretResponse lib resp apps u")
      with run marshal None Inr
      have "r = r'" and "evs = requestLog (redactPassword s a) a u @ [HttpDo req0] @ evs'"
        by (auto simp: delegate_def Let_def req0_def)
      with sent Inr ir interpretResponse_no_HttpDo [OF ir, of req] show ?thesis
        by (auto simp: requestLog_no_HttpDo)
    qed
  qed
qed

lemma Authenticate_expCache:
  assumes "Authenticate lib h s u p props = (out, s', evs)"
  shows "expCache s' = expCache s"
proof (cases "Parameters (config h)")
  case None
  with assms show ?thesis by (auto simp: Authenticate_def)
next
  case (Some a)
  define s1 where "s1 = s\<lparr>maps := (maps s)(a :=
                       AList.update ''password'' (GStr p)
                         (AList.update ''username'' (GStr u) (maps s a)))\<rparr>"
  have c1: "expCache s1 = expCache s" by (simp add: s1_def)
  obtain r s2 evs1 where pre: "preAuthHook h s1 a (Url (config h) @ ''/authenticate'') u p props = (r, s2, evs1)"
    by (metis prod_cases3)
  have c2: "expCache s2 = expCache s"
    using preAuthHook_frame [OF pre] c1 by simp
  show ?thesis
  proof (cases r)
    case (Inl err)
    with assms Some pre c2 show ?thesis
      by (auto simp: Authenticate_def Let_def s1_def [symmetric])
  next
    case (Inr x)
    obtain a' url' apps where x: "x = (a', url', apps)" by (metis prod_cases3)
    obtain r3 s3 evs3 where del: "delegate lib h s2 a' url' apps u = (r3, s3, evs3)"
      by (metis prod_cases3)
    from assms Some pre Inr x del have "s' = s3"
      by (auto simp: Authenticate_def Let_def s1_def [symmetric])
    with delegate_expCache [OF del] c2 show ?thesis by simp
  qed
qed

lemma Authenticate_HttpDo:
  assumes run: "Authenticate lib h s u p props = (out, s', evs)"
      and sent: "HttpDo req \<in> set evs"
  shows "\<exists>apps. out = Return (case httpClient h req of
                               Inl err \<Rightarrow> Inl err
                             | Inr resp \<Rightarrow> fst (interpretResponse lib resp apps u))"
proof (cases "Parameters (config h)")
  case None
  with run sent show ?thesis by (auto simp: Authenticate_def)
next
  case (Some a)
  define s1 where "s1 = s\<lparr>maps := (maps s)(a :=
                       AList.update ''password'' (GStr p)
                         (AList.update ''username'' (GStr u) (maps s a)))\<rparr>"
  obtain r s2 evs1 where pre: "preAuthHook h s1 a (Url (config h) @ ''/authenticate'') u p props = (r, s2, evs1)"
    by (metis prod_cases3)
  have nohttp: "HttpDo req \<notin> set evs1"
    using preAuthHook_frame [OF pre] by simp
  show ?thesis
  proof (cases r)
    case (Inl err)
    with run Some pre have "evs = evs1"
      by (auto simp: Authenticate_def Let_def s1_def [symmetric])
    with sent nohttp show ?thesis by simp
  next
    case (Inr x)
    obtain a' url' apps where x: "x = (a', url', apps)" by (metis prod_cases3)
    obtain r3 s3 evs3 where del: "delegate lib h s2 a' url' apps u = (r3, s3, evs3)"
      by (metis prod_cases3)
    from run Some pre Inr x del have "out = Return r3" and "evs = evs1 @ evs3"
      by (auto simp: Authenticate_def Let_def s1_def [symmetric])
    with sent nohttp delegate_HttpDo [OF del, of req] show ?thesis by auto
  qed
qed

lemma Authenticate_CallHook:
  assumes run: "Authenticate lib h s u p props = (out, s', evs)"
      and called: "CallHook u' p' props' \<in> set evs"
      and hook: "hookPreAuth h = Some sc"
      and exports: "Exports sc = Some export"
      and res: "export u p props = (lines, Inr hookResult)"
      and falsy: "\<not> ToBoolean hookResult"
  shows "out = Return (Inl InvalidCredentialsError) \<and> HttpDo req \<notin> set evs"
proof (cases "Parameters (config h)")
  case None
  with run called show ?thesis by (auto simp: Authenticate_def)
next
  case (Some a)
  define s1 where "s1 = s\<lparr>maps := (maps s)(a :=
                       AList.update ''password'' (GStr p)
                         (AList.update ''username'' (GStr u) (maps s a)))\<rparr>"
  obtain r s2 evs1 where pre: "preAuthHook h s1 a (Url (config h) @ ''/authenticate'') u p props = (r, s2, evs1)"
    by (metis prod_cases3)
  show ?thesis
  proof (cases "RunError sc")
    case (Some err)
    with pre hook have "r = Inl err" and "evs1 = []"
      by (auto simp: preAuthHook_def)
    with run \<open>Parameters (config h) = Some a\<close> pre have "evs = []"
      by (auto simp: Authenticate_def Let_def s1_def [symmetric])
    with called show ?thesis by simp
  next
    case None
    with pre hook exports res falsy have "r = Inl InvalidCredentialsError"
      by (auto simp: preAuthHook_def applyHookResult_def Let_def)
    with run \<open>Parameters (config h) = Some a\<close> pre
    have "out = Return (Inl InvalidCredentialsError)" and "evs = evs1"
      by (auto simp: Authenticate_def Let_def s1_def [symmetric])
    with preAuthHook_frame [OF pre, of req] show ?thesis by simp
  qed
qed

lemma demo_sends_aliceRequest:
  "HttpDo aliceRequest
     \<in> set (snd (snd (Authenticate stdlib0 (demoHandler None (answer st ct b) noVerdict)
                         initialState ''alice'' ''hunter2'' None)))"
  by (simp add: Authenticate_unfold demo_unfold aliceRequest_def)

lemma cache_Get_Set_NoExpiration:
  "cache_Get (cache_Set c t0 k x NoExpiration) t1 k = Some x"
  by (simp add: cache_Get_def cache_Set_def NoExpiration_def DefaultExpiration_def Let_def)

section \<open>The token validity cache\<close>

text \<open>
  C1. A token without expiry claim that the verifier reports valid is answered
  \<^verbatim>\<open>(true, token, nil)\<close> by the first call, which stores the never-expires entry. The
  claim wants every later call with the same token to answer \<^verbatim>\<open>(true, token, nil)\<close>
  without the verifier. The handler does not: the entry is the \<^verbatim>\<open>int\<close> zero, and the
  second call panics in \<^verbatim>\<open>exp.(int64)\<close> at line 262 before it compares anything.
\<close>

theorem never_expires_second_call_panics:
  "fst (IsAuthenticated (demoHandler None noAnswer (True, Some \<lparr>ExpiresAt = 0\<rparr>, None))
          initialState 1000000000 ())
     = Return (True, Some someToken, None)
   \<and> fst (IsAuthenticated (demoHandler None noAnswer (True, Some \<lparr>ExpiresAt = 0\<rparr>, None))
            (fst (snd (IsAuthenticated (demoHandler None noAnswer (True, Some \<lparr>ExpiresAt = 0\<rparr>, None))
                         initialState 1000000000 ())))
            2000000000 ())
     = Panic ''interface conversion: interface {} is int, not int64''"
  by (simp add: IsAuthenticated_unfold demo_unfold)

text \<open>
  C2. The cache-hit path is not total: on the entry that line 271 stores for any token,
  read back at any later time through any handler, the type assertion of line 262 fails
  and the call panics instead of returning.
\<close>

theorem sentinel_entry_read_back_panics:
  "fst (IsAuthenticated (h\<lparr>tokenReader := (\<lambda>r. (Some token, None))\<rparr>)
          (s\<lparr>expCache := cache_Set (expCache s) t0 (JWT token) (IntVal 0) NoExpiration\<rparr>) t1 req)
   = Panic ''interface conversion: interface {} is int, not int64''"
  by (simp add: IsAuthenticated_def cache_Get_Set_NoExpiration)

text \<open>
  C8. On a cache miss the verifier is asked. When it returns an error, the call leaves
  the state as it is and returns \<^verbatim>\<open>(false, nil, nil)\<close> for a validation error that has
  the expired bit or the signature-invalid bit set, and \<^verbatim>\<open>(false, nil, err)\<close> for a
  validation error with neither bit and for any other error.
\<close>

theorem verifier_error_classification:
  assumes reader: "tokenReader h req = (Some token, None)"
      and miss: "cache_Get (expCache s) nowNano (JWT token) = None"
      and verdict: "verifier h (JWT token) = (valid, stdClaims, Some err)"
  shows "IsAuthenticated h s nowNano req =
           (Return
              (case err of
                 ValidationError t \<Rightarrow>
                   if t AND (ValidationErrorExpired OR ValidationErrorSignatureInvalid) \<noteq> 0
                   then (False, None, None)
                   else (False, None, Some err)
               | _ \<Rightarrow> (False, None, Some err)),
            s, [VerifyToken (JWT token)])"
  using assms
  by (simp add: IsAuthenticated_def verifierFailure_def acceptableErrors_def split: error.splits)

theorem verifier_error_classification_witness:
  "tokenReader (demoHandler None noAnswer (False, None, Some (ValidationError ValidationErrorExpired))) ()
     = (Some someToken, None)
   \<and> cache_Get (expCache initialState) 1000000000 (JWT someToken) = None
   \<and> IsAuthenticated (demoHandler None noAnswer (False, None, Some (ValidationError ValidationErrorExpired)))
        initialState 1000000000 ()
       = (Return (False, None, None), initialState, [VerifyToken (JWT someToken)])
   \<and> IsAuthenticated (demoHandler None noAnswer (False, None, Some (ValidationError 1)))
        initialState 1000000000 ()
       = (Return (False, None, Some (ValidationError 1)), initialState, [VerifyToken (JWT someToken)])
   \<and> IsAuthenticated (demoHandler None noAnswer noVerdict) initialState 1000000000 ()
       = (Return (False, None, Some (OtherError ''no verifier'')), initialState,
          [VerifyToken (JWT someToken)])"
proof -
  have reader: "tokenReader (demoHandler None noAnswer v) () = (Some someToken, None)" for v
    by (simp add: demoHandler_def)
  have miss: "cache_Get (expCache initialState) 1000000000 (JWT someToken) = None"
    by (simp add: cache_Get_def initialState_def)
  have verdict: "verifier (demoHandler None noAnswer (b, c, Some e)) (JWT someToken) = (b, c, Some e)"
    for b c e
    by (simp add: demoHandler_def)
  show ?thesis
    using verifier_error_classification [OF reader miss verdict, of False None "ValidationError ValidationErrorExpired"]
      verifier_error_classification [OF reader miss verdict, of False None "ValidationError 1"]
      verifier_error_classification [OF reader miss verdict, of False None "OtherError ''no verifier''"]
      reader miss
    by (simp add: noVerdict_def ValidationErrorExpired_def ValidationErrorSignatureInvalid_def)
qed

text \<open>
  C9. A hit on an entry that holds an \<^verbatim>\<open>int64\<close> expiry (every entry but the
  never-expires one) which is not strictly in the future is not treated as a miss: the
  verifier is not called (no event at all), the state with the entry is returned
  unchanged, and the result is \<^verbatim>\<open>(false, nil, nil)\<close>. The witness reaches such a hit
  with the handler itself: a token expiring at second 1000 is cached at second 900.5 and
  presented again at second 1000.2.
\<close>

theorem stale_hit_is_not_a_miss:
  assumes reader: "tokenReader h req = (Some token, None)"
      and hit: "cache_Get (expCache s) nowNano (JWT token) = Some (Int64Val expiry)"
      and stale: "\<not> Unix nowNano <s expiry"
  shows "IsAuthenticated h s nowNano req = (Return (False, None, None), s, [])"
  using assms by (simp add: IsAuthenticated_def)

theorem stale_hit_is_not_a_miss_witness:
  "cache_Get
     (expCache (fst (snd (IsAuthenticated (demoHandler None noAnswer (True, Some \<lparr>ExpiresAt = 1000\<rparr>, None))
                            initialState 900500000000 ()))))
     1000200000000 (JWT someToken) = Some (Int64Val 1000)
   \<and> \<not> Unix 1000200000000 <s 1000
   \<and> fst (IsAuthenticated (demoHandler None noAnswer noVerdict)
            (fst (snd (IsAuthenticated (demoHandler None noAnswer (True, Some \<lparr>ExpiresAt = 1000\<rparr>, None))
                         initialState 900500000000 ())))
            1000200000000 ())
       = Return (False, None, None)
   \<and> snd (snd (IsAuthenticated (demoHandler None noAnswer noVerdict)
            (fst (snd (IsAuthenticated (demoHandler None noAnswer (True, Some \<lparr>ExpiresAt = 1000\<rparr>, None))
                         initialState 900500000000 ())))
            1000200000000 ()))
       = []"
proof -
  let ?s = "fst (snd (IsAuthenticated (demoHandler None noAnswer (True, Some \<lparr>ExpiresAt = 1000\<rparr>, None))
                         initialState 900500000000 ()))"
  have reader: "tokenReader (demoHandler None noAnswer noVerdict) () = (Some someToken, None)"
    by (simp add: demoHandler_def)
  have hit: "cache_Get (expCache ?s) 1000200000000 (JWT someToken) = Some (Int64Val 1000)"
    by (simp add: IsAuthenticated_unfold demo_unfold)
  have stale: "\<not> Unix 1000200000000 <s (1000 :: int64)"
    by (simp add: Unix_def)
  show ?thesis
    using stale_hit_is_not_a_miss [OF reader hit stale] hit stale by simp
qed

text \<open>
  C10. Only positive results are cached. Whenever \<^verbatim>\<open>IsAuthenticated\<close> leaves the cache
  different at a key, that key is the token of the request and the verifier, called in
  this very call, reported it valid without error; \<^verbatim>\<open>Authenticate\<close>, the other
  operation of the handler, never changes the cache.
\<close>

theorem cache_stores_only_verified_tokens:
  "(expCache (fst (snd (IsAuthenticated h s nowNano req))) k \<noteq> expCache s k \<longrightarrow>
      (\<exists>token claims. tokenReader h req = (Some token, None) \<and> k = JWT token
         \<and> verifier h k = (True, Some claims, None)
         \<and> VerifyToken k \<in> set (snd (snd (IsAuthenticated h s nowNano req)))))
   \<and> expCache (fst (snd (Authenticate lib g s username password additionalBodyProperties))) = expCache s"
proof
  show "expCache (fst (snd (IsAuthenticated h s nowNano req))) k \<noteq> expCache s k \<longrightarrow>
      (\<exists>token claims. tokenReader h req = (Some token, None) \<and> k = JWT token
         \<and> verifier h k = (True, Some claims, None)
         \<and> VerifyToken k \<in> set (snd (snd (IsAuthenticated h s nowNano req))))"
    by (auto simp: IsAuthenticated_def cache_Set_def Let_def
        split: prod.splits option.splits cached.splits if_splits)
next
  show "expCache (fst (snd (Authenticate lib g s username password additionalBodyProperties))) = expCache s"
    by (metis Authenticate_expCache prod.collapse)
qed

theorem cache_stores_only_verified_tokens_witness:
  "expCache (fst (snd (IsAuthenticated (demoHandler None noAnswer (True, Some \<lparr>ExpiresAt = 1000\<rparr>, None))
                         initialState 900500000000 ()))) ''header.claims.signature''
     \<noteq> expCache initialState ''header.claims.signature''
   \<and> (\<exists>token claims.
         tokenReader (demoHandler None noAnswer (True, Some \<lparr>ExpiresAt = 1000\<rparr>, None)) ()
           = (Some token, None)
         \<and> ''header.claims.signature'' = JWT token
         \<and> verifier (demoHandler None noAnswer (True, Some \<lparr>ExpiresAt = 1000\<rparr>, None))
              ''header.claims.signature'' = (True, Some claims, None))"
proof -
  let ?h = "demoHandler None noAnswer (True, Some \<lparr>ExpiresAt = 1000\<rparr>, None)"
  have changed: "expCache (fst (snd (IsAuthenticated ?h initialState 900500000000 ()))) ''header.claims.signature''
     \<noteq> expCache initialState ''header.claims.signature''"
    by (simp add: IsAuthenticated_unfold demo_unfold)
  from cache_stores_only_verified_tokens
         [of ?h initialState 900500000000 "()" "''header.claims.signature''"] changed
  show ?thesis by blast
qed

section \<open>The credential delegation\<close>

text \<open>
  C3. The password is meant to stay out of every log line. It does not when the hook
  replaces the body: line 157 logs the new body as it is, before lines 187 to 190 redact
  it. With a hook that maps the credentials to \<^verbatim>\<open>{user, password}\<close>, the debug line
  carries the password \<^verbatim>\<open>hunter2\<close>.
\<close>

theorem hook_body_logged_with_password:
  "Log Debug ''hook mapped authentication request to: %s''
       [LMap [(''user'', GStr ''alice''), (''password'', GStr ''hunter2'')]]
     \<in> set (snd (snd (Authenticate stdlib0 (demoHandler (Some mappingHook) noAnswer noVerdict)
                         initialState ''alice'' ''hunter2'' None)))"
  by (simp add: Authenticate_unfold demo_unfold)

text \<open>
  C4. The request body is meant to live for one call. The handler builds it in the
  configured parameters map itself (line 109 copies the reference), so the map the
  configuration holds at address 0 is another one after the call: it has gained the
  user name and a redacted password, and after a call that the hook rejects it holds the
  password itself.
\<close>

theorem configured_parameters_overwritten:
  "Parameters (config (demoHandler None (answer 200 ''application/jwt'' ''abc.def.ghi'') noVerdict)) = Some 0
   \<and> maps initialState 0 = [(''realm'', GStr ''staff'')]
   \<and> maps (fst (snd (Authenticate stdlib0
                        (demoHandler None (answer 200 ''application/jwt'' ''abc.def.ghi'') noVerdict)
                        initialState ''alice'' ''hunter2'' None))) 0
       = [(''realm'', GStr ''staff''), (''username'', GStr ''alice''),
          (''password'', GStr ''*REDACTED*'')]
   \<and> maps (fst (snd (Authenticate stdlib0 (demoHandler (Some rejectingHook) noAnswer noVerdict)
                        initialState ''alice'' ''hunter2'' None))) 0
       = [(''realm'', GStr ''staff''), (''username'', GStr ''alice''),
          (''password'', GStr ''hunter2'')]"
  by (simp add: Authenticate_unfold demo_unfold)

text \<open>
  C5. When a hook is configured, the handler calls its exported function, and the
  function returns a falsy value, \<^verbatim>\<open>Authenticate\<close> fails with
  \<^verbatim>\<open>InvalidCredentialsError\<close> and sends no request to the provider.
\<close>

theorem falsy_hook_result_rejects_without_request:
  assumes run: "Authenticate lib h s username password additionalBodyProperties = (out, s', evs)"
      and hook: "hookPreAuth h = Some sc"
      and exports: "Exports sc = Some export"
      and called: "CallHook username password additionalBodyProperties \<in> set evs"
      and res: "export username password additionalBodyProperties = (lines, Inr hookResult)"
      and falsy: "\<not> ToBoolean hookResult"
  shows "out = Return (Inl InvalidCredentialsError) \<and> (\<forall>req. HttpDo req \<notin> set evs)"
  using Authenticate_CallHook [OF run called hook exports res falsy] by simp

theorem falsy_hook_result_rejects_without_request_witness:
  "CallHook ''alice'' ''hunter2'' None
     \<in> set (snd (snd (Authenticate stdlib0 (demoHandler (Some rejectingHook) noAnswer noVerdict)
                         initialState ''alice'' ''hunter2'' None)))
   \<and> \<not> ToBoolean (JBool False)
   \<and> fst (Authenticate stdlib0 (demoHandler (Some rejectingHook) noAnswer noVerdict)
            initialState ''alice'' ''hunter2'' None)
       = Return (Inl InvalidCredentialsError)
   \<and> (\<forall>req. HttpDo req
         \<notin> set (snd (snd (Authenticate stdlib0 (demoHandler (Some rejectingHook) noAnswer noVerdict)
                             initialState ''alice'' ''hunter2'' None))))"
proof -
  let ?h = "demoHandler (Some rejectingHook) noAnswer noVerdict"
  let ?run = "Authenticate stdlib0 ?h initialState ''alice'' ''hunter2'' None"
  have run: "?run = (fst ?run, fst (snd ?run), snd (snd ?run))" by simp
  have hook: "hookPreAuth ?h = Some rejectingHook" by (simp add: demoHandler_def)
  have exports: "Exports rejectingHook = Some (\<lambda>u p props. ([], Inr (JBool False)))"
    by (simp add: rejectingHook_def)
  have called: "CallHook ''alice'' ''hunter2'' None \<in> set (snd (snd ?run))"
    by (simp add: Authenticate_unfold demo_unfold)
  have res: "(\<lambda>u p props. ([], Inr (JBool False))) ''alice'' ''hunter2'' None = ([], Inr (JBool False))"
    by simp
  have falsy: "\<not> ToBoolean (JBool False)" by simp
  from falsy_hook_result_rejects_without_request [OF run hook exports called res falsy] called falsy
  show ?thesis by simp
qed

text \<open>
  C6. For every response the provider gives to the request of the call, with a status
  other than 202: below 400 the call returns a \<^verbatim>\<open>JWTResponse\<close> whose \<^verbatim>\<open>JWT\<close> is the
  response body, at 403 it fails with \<^verbatim>\<open>InvalidCredentialsError\<close>, and at any other
  status from 400 on it fails with the error that carries the status code, the user name
  and the response body.
\<close>

theorem provider_status_interpretation:
  assumes run: "Authenticate lib h s username password additionalBodyProperties = (out, s', evs)"
      and sent: "HttpDo req \<in> set evs"
      and answered: "httpClient h req = Inr resp"
      and not202: "StatusCode resp \<noteq> 202"
  shows "\<exists>allowedApplications.
           out = Return
             (if StatusCode resp < 400
              then Inr \<lparr>JWT = Body resp, AllowedApplications = allowedApplications\<rparr>
              else if StatusCode resp = 403 then Inl InvalidCredentialsError
              else Inl (UnexpectedStatusError (StatusCode resp) username (Body resp)))"
proof -
  from Authenticate_HttpDo [OF run sent] answered obtain apps
    where "out = Return (fst (interpretResponse lib resp apps username))" by auto
  with not202 show ?thesis by (auto simp: interpretResponse_def)
qed

theorem provider_status_interpretation_witness:
  "HttpDo aliceRequest
     \<in> set (snd (snd (Authenticate stdlib0 (demoHandler None (answer 200 ''application/jwt'' ''abc.def.ghi'') noVerdict)
                         initialState ''alice'' ''hunter2'' None)))
   \<and> (\<exists>allowedApplications.
         fst (Authenticate stdlib0 (demoHandler None (answer 200 ''application/jwt'' ''abc.def.ghi'') noVerdict)
                initialState ''alice'' ''hunter2'' None)
           = Return (Inr \<lparr>JWT = ''abc.def.ghi'', AllowedApplications = allowedApplications\<rparr>))
   \<and> fst (Authenticate stdlib0 (demoHandler None (answer 403 ''text/plain'' ''denied'') noVerdict)
            initialState ''alice'' ''hunter2'' None)
       = Return (Inl InvalidCredentialsError)
   \<and> fst (Authenticate stdlib0 (demoHandler None (answer 500 ''text/plain'' ''down'') noVerdict)
            initialState ''alice'' ''hunter2'' None)
       = Return (Inl (UnexpectedStatusError 500 ''alice'' ''down''))"
proof -
  have run: "Authenticate stdlib0 (demoHandler None a noVerdict) initialState ''alice'' ''hunter2'' None
      = (fst (Authenticate stdlib0 (demoHandler None a noVerdict) initialState ''alice'' ''hunter2'' None),
         fst (snd (Authenticate stdlib0 (demoHandler None a noVerdict) initialState ''alice'' ''hunter2'' None)),
         snd (snd (Authenticate stdlib0 (demoHandler None a noVerdict) initialState ''alice'' ''hunter2'' None)))"
    for a by simp
  have answered: "httpClient (demoHandler None (answer st ct b) noVerdict) aliceRequest
      = Inr \<lparr>StatusCode = st, RespContentType = ct, Body = b\<rparr>" for st ct b
    by (simp add: demoHandler_def answer_def)
  have st: "StatusCode \<lparr>StatusCode = st, RespContentType = ct, Body = b\<rparr> \<noteq> 202" if "st \<noteq> 202"
    for st ct b using that by simp
  show ?thesis
    using provider_status_interpretation [OF run demo_sends_aliceRequest answered st, of 200 "''application/jwt''" "''abc.def.ghi''"]
      provider_status_interpretation [OF run demo_sends_aliceRequest answered st, of 403 "''text/plain''" "''denied''"]
      provider_status_interpretation [OF run demo_sends_aliceRequest answered st, of 500 "''text/plain''" "''down''"]
      demo_sends_aliceRequest [of 200 "''application/jwt''" "''abc.def.ghi''"]
    by simp
qed

text \<open>
  C7, as claimed: every response with status 202 and a content type that starts with
  \<^verbatim>\<open>application/json\<close> ends in \<^verbatim>\<open>AuthenticationIncompleteError\<close>. It does not when
  the body cannot be decoded into a map: lines 235 to 237 return the decoder's error, for
  an empty body \<^verbatim>\<open>io.EOF\<close>.
\<close>

theorem empty_202_body_is_EOF:
  "fst (Authenticate stdlib0 (demoHandler None (answer 202 ''application/json'' []) noVerdict)
          initialState ''alice'' ''hunter2'' None)
   = Return (Inl EOF)"
  by (simp add: Authenticate_unfold demo_unfold)

text \<open>
  C7, amended. For every response with status 202: a content type that does not start
  with \<^verbatim>\<open>application/json\<close> fails with \<^verbatim>\<open>InvalidResponseBodyContentTypeError\<close>
  carrying that content type; otherwise a body that decodes into a map fails with
  \<^verbatim>\<open>AuthenticationIncompleteError\<close> carrying the decoded map, and a body that does not
  decode fails with the decoder's error.
\<close>

theorem accepted_response_needs_second_factor:
  assumes run: "Authenticate lib h s username password additionalBodyProperties = (out, s', evs)"
      and sent: "HttpDo req \<in> set evs"
      and answered: "httpClient h req = Inr resp"
      and accepted: "StatusCode resp = 202"
  shows "out = Return (Inl
           (if \<not> prefix ''application/json'' (RespContentType resp)
            then InvalidResponseBodyContentTypeError (RespContentType resp)
            else case json_Decode lib (Body resp) of
                   Inl err \<Rightarrow> err
                 | Inr decoded \<Rightarrow> AuthenticationIncompleteError decoded))"
proof -
  from Authenticate_HttpDo [OF run sent] answered obtain apps
    where "out = Return (fst (interpretResponse lib resp apps username))" by auto
  with accepted show ?thesis by (auto simp: interpretResponse_def split: sum.splits)
qed

theorem accepted_response_needs_second_factor_witness:
  "HttpDo aliceRequest
     \<in> set (snd (snd (Authenticate stdlib0 (demoHandler None (answer 202 ''application/json'' smsDocument) noVerdict)
                         initialState ''alice'' ''hunter2'' None)))
   \<and> fst (Authenticate stdlib0 (demoHandler None (answer 202 ''application/json'' smsDocument) noVerdict)
            initialState ''alice'' ''hunter2'' None)
       = Return (Inl (AuthenticationIncompleteError [(''factor'', GStr ''sms'')]))
   \<and> fst (Authenticate stdlib0 (demoHandler None (answer 202 ''text/plain'' smsDocument) noVerdict)
            initialState ''alice'' ''hunter2'' None)
       = Return (Inl (InvalidResponseBodyContentTypeError ''text/plain''))"
proof -
  have run: "Authenticate stdlib0 (demoHandler None a noVerdict) initialState ''alice'' ''hunter2'' None
      = (fst (Authenticate stdlib0 (demoHandler None a noVerdict) initialState ''alice'' ''hunter2'' None),
         fst (snd (Authenticate stdlib0 (demoHandler None a noVerdict) initialState ''alice'' ''hunter2'' None)),
         snd (snd (Authenticate stdlib0 (demoHandler None a noVerdict) initialState ''alice'' ''hunter2'' None)))"
    for a by simp
  have answered: "httpClient (demoHandler None (answer 202 ct b) noVerdict) aliceRequest
      = Inr \<lparr>StatusCode = 202, RespContentType = ct, Body = b\<rparr>" for ct b
    by (simp add: demoHandler_def answer_def)
  have st: "StatusCode \<lparr>StatusCode = 202, RespContentType = ct, Body = b\<rparr> = 202" for ct b
    by simp
  have decode: "json_Decode stdlib0 smsDocument = Inr [(''factor'', GStr ''sms'')]"
    by (simp add: json_Decode_def stdlib0_def smsDocument_def)
  show ?thesis
    using accepted_response_needs_second_factor [OF run demo_sends_aliceRequest answered st, of "''application/json''" smsDocument]
      accepted_response_needs_second_factor [OF run demo_sends_aliceRequest answered st, of "''text/plain''" smsDocument]
      demo_sends_aliceRequest [of 202 "''application/json''" smsDocument]
    by (simp add: decode)
qed

end
